theory Spec2Isabelle
  imports Complex_Main "HOL-Library.Sublist"
begin

section \<open>Module constants of whispers2t.py\<close>

text \<open>
  \<^verbatim>\<open>CHUNK = 4096\<close>, \<^verbatim>\<open>TARGET_SAMPLE_RATE = 16000\<close>, \<^verbatim>\<open>MAX_BUFFER_SECONDS = 30\<close>.
  Python integers are unbounded, so they are \<open>int\<close> here.
\<close>

definition CHUNK :: int where
  "CHUNK = 4096"

definition TARGET_SAMPLE_RATE :: int where
  "TARGET_SAMPLE_RATE = 16000"

definition MAX_BUFFER_SECONDS :: int where
  "MAX_BUFFER_SECONDS = 30"

section \<open>TranscriptionHistory\<close>

text \<open>
  The class keeps a Python list of strings and the bound \<open>max_history\<close> (constructor
  default 5). A Python \<open>str\<close> is a sequence of code points; a \<open>char\<close> of the model
  stands for one code point, so \<open>length\<close> is Python's \<open>len\<close> (code points below 256).
  The argument of \<open>add\<close> may be \<open>None\<close>, hence \<open>string option\<close>.
\<close>

record TranscriptionHistory =
  history :: "string list"
  max_history :: int

definition new_history :: "int \<Rightarrow> TranscriptionHistory" where
  "new_history m = \<lparr>history = [], max_history = m\<rparr>"

text \<open>
  \<^verbatim>\<open>if not text: return\<close> covers both \<open>None\<close> and the empty string. After the append
  the list is not empty, so \<^verbatim>\<open>pop(0)\<close> cannot raise and is \<open>tl\<close>; \<^verbatim>\<open>history[-1]\<close> is
  read only when the list is not empty and is \<open>last\<close>.
\<close>

fun add :: "string option \<Rightarrow> TranscriptionHistory \<Rightarrow> TranscriptionHistory" where
  "add None h = h"
| "add (Some text) h =
     (if text = [] then h
      else if history h = [] \<or> text \<noteq> last (history h) then
        (let appended = history h @ [text]
         in if int (length appended) > max_history h
            then h\<lparr>history := tl appended\<rparr>
            else h\<lparr>history := appended\<rparr>)
      else h)"

fun get_prompt :: "TranscriptionHistory \<Rightarrow> string option" where
  "get_prompt h = (if history h = [] then None else Some (last (history h)))"

section \<open>OptimizedAudioTranscriber: state\<close>

text \<open>
  A frame is the opaque \<^verbatim>\<open>in_data\<close> of one capture callback, so the buffer is a list
  over a type variable. Files of the temporary directory are named by the prefix of the
  file name and the \<^verbatim>\<open>time.time()\<close> stamp in it; a file's content records the frames
  written and the ffmpeg filters applied to them. \<^verbatim>\<open>self.p\<close>, \<^verbatim>\<open>self.stream\<close> and
  \<^verbatim>\<open>self.transcription_thread\<close> are \<open>None\<close> or an object: a flag. The calls made
  to the engine and the lines printed are logged in the state.
\<close>

datatype path = AudioPath nat | ResampledPath nat | NormalizedPath nat

datatype 'f audio =
    Wav int "'f list"
  | Resampled "'f audio"
  | ResampledPlain "'f audio"
  | Loudnorm "'f audio"

record 'f transcriber =
  p :: bool
  stream :: bool
  audio_buffer :: "'f list"
  is_recording :: bool
  transcription_thread :: bool
  last_transcription :: string
  device_sample_rate :: int
  transcription_history :: TranscriptionHistory
  temp_dir :: "path \<rightharpoonup> 'f audio"
  engine_calls :: "(path \<times> string option) list"
  printed :: "string list"

definition new_transcriber :: "'f transcriber" where
  "new_transcriber =
     \<lparr>p = False, stream = False, audio_buffer = [], is_recording = False,
      transcription_thread = False, last_transcription = [],
      device_sample_rate = TARGET_SAMPLE_RATE, transcription_history = new_history 5,
      temp_dir = Map.empty, engine_calls = [], printed = []\<rparr>"



section \<open>Limiting the buffer\<close>

text \<open>
  \<^verbatim>\<open>int((rate * MAX_BUFFER_SECONDS) / CHUNK)\<close> is a float division followed by a
  truncation toward zero. \<open>CHUNK\<close> is a power of two, so the float quotient is exact as
  long as the product is below \<open>2 ^ 53\<close>; the model is the exact truncated quotient.
  The slice \<^verbatim>\<open>audio_buffer[excess:]\<close> with \<open>excess > 0\<close> is \<open>drop\<close>, empty when
  \<open>excess\<close> is beyond the end.
\<close>

definition int_quotient :: "int \<Rightarrow> int \<Rightarrow> int" where
  "int_quotient a b = (if 0 \<le> a then a div b else - ((- a) div b))"

definition max_chunks :: "'f transcriber \<Rightarrow> int" where
  "max_chunks st = int_quotient (device_sample_rate st * MAX_BUFFER_SECONDS) CHUNK"

definition limit_buffer_size :: "'f transcriber \<Rightarrow> 'f transcriber" where
  "limit_buffer_size st =
     (if int (length (audio_buffer st)) > max_chunks st
      then (let excess = int (length (audio_buffer st)) - max_chunks st
            in st\<lparr>audio_buffer := drop (nat excess) (audio_buffer st)\<rparr>)
      else st)"



section \<open>Starting and stopping\<close>

text \<open>
  What the audio library answers is a parameter: whether \<^verbatim>\<open>pyaudio.PyAudio()\<close>,
  \<^verbatim>\<open>p.open\<close> and \<^verbatim>\<open>Thread.start\<close> return or raise, and what
  \<^verbatim>\<open>get_device_by_index\<close> returns. The \<^verbatim>\<open>except\<close> handler of
  \<^verbatim>\<open>start_recording\<close> closes the stream, clears the flag and raises again.
\<close>

record device_info =
  defaultSampleRate :: "int option"
  maxInputChannels :: "int option"

datatype error =
    PyAudioError
  | ValueError int
  | StreamOpenError
  | ThreadStartError
  | StreamCloseError

record start_env =
  pyaudio_ok :: bool
  device_by_index :: "int \<Rightarrow> device_info option"
  open_ok :: bool
  thread_start_ok :: bool

definition device_rate :: "start_env \<Rightarrow> int option \<Rightarrow> error + int" where
  "device_rate env input_device_index =
     (case input_device_index of
        None \<Rightarrow> Inr TARGET_SAMPLE_RATE
      | Some i \<Rightarrow>
          (case device_by_index env i of
             None \<Rightarrow> Inl (ValueError i)
           | Some d \<Rightarrow>
               Inr (case defaultSampleRate d of None \<Rightarrow> TARGET_SAMPLE_RATE | Some r \<Rightarrow> r)))"

definition start_attempt ::
  "start_env \<Rightarrow> int option \<Rightarrow> 'f transcriber \<Rightarrow> (error + unit) \<times> 'f transcriber" where
  "start_attempt env input_device_index st =
     (if \<not> p st \<and> \<not> pyaudio_ok env then (Inl PyAudioError, st)
      else
        (let st1 = st\<lparr>p := True\<rparr>
         in case device_rate env input_device_index of
              Inl e \<Rightarrow> (Inl e, st1)
            | Inr rate \<Rightarrow>
                (let st2 = st1\<lparr>device_sample_rate := rate, audio_buffer := []\<rparr>
                 in if \<not> open_ok env then (Inl StreamOpenError, st2)
                    else
                      (let st3 = st2\<lparr>stream := True, is_recording := True,
                                       transcription_thread := True\<rparr>
                       in if thread_start_ok env then (Inr (), st3)
                          else (Inl ThreadStartError, st3)))))"

definition start_recording ::
  "start_env \<Rightarrow> int option \<Rightarrow> 'f transcriber \<Rightarrow> (error + unit) \<times> 'f transcriber" where
  "start_recording env input_device_index st =
     (if is_recording st then (Inr (), st)
      else
        (case start_attempt env input_device_index st of
           (Inr u, st') \<Rightarrow> (Inr u, st')
         | (Inl e, st') \<Rightarrow> (Inl e, st'\<lparr>stream := False, is_recording := False\<rparr>)))"

text \<open>
  \<^verbatim>\<open>stop_recording\<close> has no handler: when stopping or closing the stream raises
  (\<open>close_ok\<close> false), the exception leaves the method after the flag was cleared.
\<close>

definition stop_recording ::
  "bool \<Rightarrow> 'f transcriber \<Rightarrow> (error + unit) \<times> 'f transcriber" where
  "stop_recording close_ok st =
     (if \<not> is_recording st then (Inr (), st)
      else
        (let st1 = st\<lparr>is_recording := False\<rparr>
         in if stream st1 \<and> \<not> close_ok then (Inl StreamCloseError, st1)
            else (Inr (), st1\<lparr>stream := False, transcription_thread := False\<rparr>)))"

section \<open>Saving, converting and transcribing the buffer\<close>

text \<open>
  A run of ffmpeg returns with a return code or raises (the executable is missing, or the
  error output cannot be decoded). The engine returns a list of lists of utterances or
  raises; an utterance is a dict with or without the key \<open>text\<close>, or something else.
\<close>

datatype proc = Returned int | Raised

datatype utterance = NotADict | Utterance "string option"

datatype engine_outcome = EngineRaised | EngineResults "utterance list list"

record tick_env =
  t_audio :: nat
  t_resampled :: nat
  t_normalized :: nat
  ffmpeg_resample :: proc
  ffmpeg_resample_plain :: proc
  ffmpeg_loudnorm :: proc
  engine :: engine_outcome

definition normalize_audio ::
  "tick_env \<Rightarrow> path \<Rightarrow> 'f transcriber \<Rightarrow> path \<times> 'f transcriber" where
  "normalize_audio env audio_file st =
     (let normalized_path = NormalizedPath (t_normalized env)
      in case ffmpeg_loudnorm env of
           Raised \<Rightarrow> (audio_file, st)
         | Returned rc \<Rightarrow>
             if rc = 0
             then (normalized_path,
                   st\<lparr>temp_dir :=
                        (temp_dir st)
                          (normalized_path := map_option Loudnorm (temp_dir st audio_file))\<rparr>)
             else (audio_file, st))"

text \<open>
  \<^verbatim>\<open>wave.open\<close> creates the file before the buffer is looked at, so an empty buffer
  leaves an empty file and returns \<open>None\<close>. The buffer itself is only read.
\<close>

definition save_audio_buffer ::
  "tick_env \<Rightarrow> 'f transcriber \<Rightarrow> path option \<times> 'f transcriber" where
  "save_audio_buffer env st =
     (let temp_path = AudioPath (t_audio env);
          rate = device_sample_rate st
      in if audio_buffer st = []
         then (None, st\<lparr>temp_dir := (temp_dir st)(temp_path \<mapsto> Wav rate [])\<rparr>)
         else
           (let wav = Wav rate (audio_buffer st);
                st1 = st\<lparr>temp_dir := (temp_dir st)(temp_path \<mapsto> wav)\<rparr>
            in if rate \<noteq> TARGET_SAMPLE_RATE
               then
                 (let resampled_path = ResampledPath (t_resampled env)
                  in case ffmpeg_resample env of
                       Raised \<Rightarrow> (Some temp_path, st1)
                     | Returned rc \<Rightarrow>
                         if rc = 0
                         then (Some resampled_path,
                               st1\<lparr>temp_dir := (temp_dir st1)(resampled_path \<mapsto> Resampled wav)\<rparr>)
                         else
                           (case ffmpeg_resample_plain env of
                              Raised \<Rightarrow> (Some temp_path, st1)
                            | Returned rc2 \<Rightarrow>
                                if rc2 = 0
                                then (Some resampled_path,
                                      st1\<lparr>temp_dir :=
                                             (temp_dir st1)(resampled_path \<mapsto> ResampledPlain wav)\<rparr>)
                                else (Some temp_path, st1)))
               else (case normalize_audio env temp_path st1 of
                       (f, st2) \<Rightarrow> (Some f, st2))))"

text \<open>
  \<^verbatim>\<open>str.strip()\<close> removes the characters for which \<^verbatim>\<open>str.isspace()\<close> holds from
  both ends; below code point 256 these are 9 to 13, 28 to 32, 133 and 160.
\<close>

definition is_space :: "char \<Rightarrow> bool" where
  "is_space c =
     (let n = (of_char c :: nat)
      in (9 \<le> n \<and> n \<le> 13) \<or> (28 \<le> n \<and> n \<le> 32) \<or> n = 133 \<or> n = 160)"

definition strip :: "string \<Rightarrow> string" where
  "strip s = rev (dropWhile is_space (rev (dropWhile is_space s)))"

definition has_punctuation :: "string \<Rightarrow> bool" where
  "has_punctuation text = list_ex (\<lambda>c. c \<in> set text) ''.!?,;''"

definition postprocess :: "string \<Rightarrow> string" where
  "postprocess raw =
     (let text = strip raw
      in if length text < 3 \<and> \<not> has_punctuation text then [] else text)"

definition result_text :: "utterance list list \<Rightarrow> string" where
  "result_text results =
     (case results of
        [] \<Rightarrow> []
      | r # _ \<Rightarrow>
          (case r of
             [] \<Rightarrow> []
           | NotADict # _ \<Rightarrow> []
           | Utterance None # _ \<Rightarrow> []
           | Utterance (Some raw) # _ \<Rightarrow> postprocess raw))"

definition initial_prompt :: "TranscriptionHistory \<Rightarrow> string option" where
  "initial_prompt h =
     (case get_prompt h of
        None \<Rightarrow> None
      | Some t \<Rightarrow> if t = [] then None else Some t)"

definition transcribe_buffer ::
  "tick_env \<Rightarrow> 'f transcriber \<Rightarrow> string \<times> 'f transcriber" where
  "transcribe_buffer env st =
     (case save_audio_buffer env st of
        (None, st1) \<Rightarrow> ([], st1)
      | (Some audio_file, st1) \<Rightarrow>
          (let prompt = initial_prompt (transcription_history st1);
               st2 = st1\<lparr>engine_calls := engine_calls st1 @ [(audio_file, prompt)]\<rparr>
           in case engine env of
                EngineRaised \<Rightarrow> ([], st2)
              | EngineResults results \<Rightarrow> (result_text results, st2)))"

text \<open>
  One iteration of \<^verbatim>\<open>_transcription_loop\<close> after the sleep: limit the buffer, read its
  length, and transcribe only when more than 5 frames are buffered.
\<close>

definition transcription_tick :: "tick_env \<Rightarrow> 'f transcriber \<Rightarrow> 'f transcriber" where
  "transcription_tick env st =
     (let st1 = limit_buffer_size st;
          buffer_length = length (audio_buffer st1)
      in if buffer_length > 5
         then
           (case transcribe_buffer env st1 of
              (transcription, st2) \<Rightarrow>
                if transcription \<noteq> [] \<and> transcription \<noteq> last_transcription st2
                then st2\<lparr>printed := printed st2 @ [transcription],
                         last_transcription := transcription,
                         transcription_history :=
                           add (Some transcription) (transcription_history st2)\<rparr>
                else st2)
         else st1)"

section \<open>AudioRecorder (audio\_recorder.py)\<close>

text \<open>
  The recorder's stream and PyAudio handles are created by the capture thread and stay
  referenced after they are closed, so each is \<open>None\<close> or a handle that is open or
  closed. \<open>chunk_frames\<close> and \<open>frames_collected\<close> are the locals of
  \<^verbatim>\<open>_record_audio\<close>. A chunk file is named by its format and time stamp and holds the
  frames written to it; the queue and \<open>current_chunk\<close> list the files.
\<close>

datatype handle = Open | Closed

datatype 'f chunk_file = WavFile nat "'f list" | Mp3File nat "'f list"


record 'f recorder =
  rec_is_recording :: bool
  rec_stream :: "handle option"
  rec_p :: "handle option"
  recording_thread :: bool
  frames :: "'f list"
  audio_queue :: "'f chunk_file list"
  current_chunk :: "'f chunk_file list"
  chunk_frames :: "'f list"
  frames_collected :: int




record save_env =
  converter :: bool
  export_ok :: bool
  stamp :: nat

definition enqueue :: "'f chunk_file \<Rightarrow> 'f recorder \<Rightarrow> 'f recorder" where
  "enqueue f r = r\<lparr>audio_queue := audio_queue r @ [f], current_chunk := current_chunk r @ [f]\<rparr>"

definition save_chunk :: "save_env \<Rightarrow> 'f list \<Rightarrow> 'f recorder \<Rightarrow> 'f recorder" where
  "save_chunk env fs r =
     (if fs = [] then r
      else if \<not> converter env then enqueue (WavFile (stamp env) fs) r
      else if export_ok env then enqueue (Mp3File (stamp env) fs) r
      else enqueue (WavFile (stamp env) fs) r)"

text \<open>
  The three statements that end a chunk in the capture loop:
  \<^verbatim>\<open>self._save_chunk(chunk_frames, device_info); chunk_frames = []; frames_collected = 0\<close>.
\<close>

definition emit_chunk :: "save_env \<Rightarrow> 'f recorder \<Rightarrow> 'f recorder" where
  "emit_chunk env r = (save_chunk env (chunk_frames r) r)\<lparr>chunk_frames := [], frames_collected := 0\<rparr>"

text \<open>
  After the loop: \<^verbatim>\<open>if chunk_frames: self._save_chunk(chunk_frames, device_info)\<close>.
\<close>

definition save_remaining :: "save_env \<Rightarrow> 'f recorder \<Rightarrow> 'f recorder" where
  "save_remaining env r = (if chunk_frames r \<noteq> [] then save_chunk env (chunk_frames r) r else r)"

datatype 'f read = Data 'f | ReadError

text \<open>
  One iteration of the capture loop; the flag says whether the loop goes on (a read error
  breaks it).
\<close>

definition record_step ::
  "save_env \<Rightarrow> int \<Rightarrow> 'f read \<Rightarrow> 'f recorder \<Rightarrow> bool \<times> 'f recorder" where
  "record_step env frames_per_chunk rd r =
     (case rd of
        ReadError \<Rightarrow> (False, r)
      | Data d \<Rightarrow>
          (let r1 = r\<lparr>chunk_frames := chunk_frames r @ [d],
                       frames_collected := frames_collected r + 1024\<rparr>
           in if frames_collected r1 \<ge> frames_per_chunk then (True, emit_chunk env r1)
              else (True, r1)))"

section \<open>TranscriptionService (transcription\_service.py)\<close>

text \<open>
  One iteration of \<^verbatim>\<open>_process_chunks\<close>. The queue gives an item or times out; the item
  is a file name or \<open>None\<close>. The call of the API (with the opening of the file) returns a
  transcription whose text may be missing or empty, or raises. \<^verbatim>\<open>os.unlink\<close> deletes
  the file or raises, and its handler only prints. The status messages and the queued
  transcription are kept as their parts rather than as formatted strings.
\<close>

datatype 'a dequeued = QueueEmpty | Item 'a

datatype api_outcome = ApiRaised string | ApiReturned "string option"

datatype status =
    ProcessingChunk string
  | ChunkProcessed string
  | NoTranscription
  | ErrorProcessing string

record service =
  is_processing :: bool
  files_on_disk :: "string set"
  transcription_queue :: "(string \<times> string \<times> string) list"
  status_queue :: "status list"

record chunk_env =
  api :: api_outcome
  unlink_ok :: bool
  timestamp :: string
  processing_time :: string

definition unlink_chunk :: "chunk_env \<Rightarrow> string \<Rightarrow> service \<Rightarrow> service" where
  "unlink_chunk env chunk_file s =
     (if unlink_ok env then s\<lparr>files_on_disk := files_on_disk s - {chunk_file}\<rparr> else s)"

definition process_chunk :: "chunk_env \<Rightarrow> string option dequeued \<Rightarrow> service \<Rightarrow> service" where
  "process_chunk env item s =
     (case item of
        QueueEmpty \<Rightarrow> s
      | Item None \<Rightarrow> s
      | Item (Some chunk_file) \<Rightarrow>
          if chunk_file = [] \<or> chunk_file \<notin> files_on_disk s then s
          else
            (let s1 = s\<lparr>status_queue := status_queue s @ [ProcessingChunk chunk_file]\<rparr>
             in case api env of
                  ApiRaised msg \<Rightarrow>
                    s1\<lparr>status_queue := status_queue s1 @ [ErrorProcessing msg]\<rparr>
                | ApiReturned tr \<Rightarrow>
                    (let s2 =
                       (case tr of
                          None \<Rightarrow> s1\<lparr>status_queue := status_queue s1 @ [NoTranscription]\<rparr>
                        | Some text \<Rightarrow>
                            if text = []
                            then s1\<lparr>status_queue := status_queue s1 @ [NoTranscription]\<rparr>
                            else s1\<lparr>transcription_queue :=
                                       transcription_queue s1 @
                                         [(timestamp env, processing_time env, text)],
                                     status_queue :=
                                       status_queue s1 @ [ChunkProcessed (processing_time env)]\<rparr>)
                     in unlink_chunk env chunk_file s2)))"

section \<open>Properties of the history\<close>

lemma add_length_bound:
  "0 \<le> max_history h \<Longrightarrow> int (length (history h)) \<le> max_history h \<Longrightarrow>
   int (length (history (add t h))) \<le> max_history (add t h)"
  by (cases t) (auto simp: Let_def)

lemma add_max_history [simp]: "max_history (add t h) = max_history h"
  by (cases t) (auto simp: Let_def)

text \<open>
  C4. \<open>add\<close> appends the text exactly when it is non-empty and differs from the last stored
  entry (or nothing is stored), it drops the oldest entry when the appended list is longer
  than \<open>max_history\<close>, and \<open>get_prompt\<close> (the spec's \<open>most_recent\<close>) is the last entry
  or \<open>None\<close>. With the default bound 5: \<open>add hello; add hello\<close> gives length 1, and
  \<open>add hello; add world\<close> gives length 2 with \<open>world\<close> as the most recent entry.
\<close>

theorem history_add_dedup_and_truncate:
  "(history h \<noteq> [] \<and> last (history h) = text \<longrightarrow> add (Some text) h = h)
   \<and> (text \<noteq> [] \<and> (history h = [] \<or> last (history h) \<noteq> text) \<longrightarrow>
        history (add (Some text) h) =
          (if int (length (history h)) + 1 > max_history h
           then tl (history h @ [text]) else history h @ [text]))
   \<and> (history (add (Some text) h) \<noteq> history h \<longrightarrow>
        history h = [] \<or> last (history h) \<noteq> text)
   \<and> get_prompt h = (if history h = [] then None else Some (last (history h)))
   \<and> length (history (add (Some ''hello'') (add (Some ''hello'') (new_history 5)))) = 1
   \<and> length (history (add (Some ''world'') (add (Some ''hello'') (new_history 5)))) = 2
   \<and> get_prompt (add (Some ''world'') (add (Some ''hello'') (new_history 5))) = Some ''world''"
  by (auto simp: Let_def new_history_def)

theorem history_add_dedup_and_truncate_witness:
  "add (Some ''b'') \<lparr>history = [''a'', ''b''], max_history = 2\<rparr>
     = \<lparr>history = [''a'', ''b''], max_history = 2\<rparr>
   \<and> history (add (Some ''c'') \<lparr>history = [''a'', ''b''], max_history = 2\<rparr>) = [''b'', ''c'']
   \<and> history (add (Some ''c'') \<lparr>history = [''a'', ''b''], max_history = 5\<rparr>)
       = [''a'', ''b'', ''c'']"
  using history_add_dedup_and_truncate
          [of "\<lparr>history = [''a'', ''b''], max_history = 2\<rparr>" "''b''"]
        history_add_dedup_and_truncate
          [of "\<lparr>history = [''a'', ''b''], max_history = 2\<rparr>" "''c''"]
        history_add_dedup_and_truncate
          [of "\<lparr>history = [''a'', ''b''], max_history = 5\<rparr>" "''c''"]
  by simp

text \<open>
  C10. Adding the empty string or \<open>None\<close> returns the history object unchanged: the list,
  its length and the prompt are the same as before the call.
\<close>

theorem history_add_empty_unchanged:
  "add None h = h \<and> add (Some '''') h = h
   \<and> length (history (add None h)) = length (history h)
   \<and> length (history (add (Some '''') h)) = length (history h)
   \<and> get_prompt (add None h) = get_prompt h
   \<and> get_prompt (add (Some '''') h) = get_prompt h"
  by simp

theorem history_add_empty_unchanged_witness:
  "add (Some '''') \<lparr>history = [''hello''], max_history = 5\<rparr>
     = \<lparr>history = [''hello''], max_history = 5\<rparr>
   \<and> get_prompt (add None \<lparr>history = [''hello''], max_history = 5\<rparr>) = Some ''hello''"
  using history_add_empty_unchanged [of "\<lparr>history = [''hello''], max_history = 5\<rparr>"]
  by simp

section \<open>Properties of the buffer limit\<close>










section \<open>Properties of chunk emission and of the buffer snapshot\<close>








section \<open>Properties of the noise filter\<close>





section \<open>Properties of starting\<close>






section \<open>Properties of the conversion stage\<close>






section \<open>Properties of the transcription service\<close>

text \<open>
  A chunk is transcribed (its text is queued) and \<^verbatim>\<open>os.unlink\<close> raises: the file is
  still on disk afterwards.
\<close>

theorem process_chunk_cleanup_counterexample:
  "''chunk.wav'' \<in> files_on_disk (process_chunk
      \<lparr>api = ApiReturned (Some ''hello''), unlink_ok = False, timestamp = ''12:00:00'',
       processing_time = ''0.5''\<rparr>
      (Item (Some ''chunk.wav''))
      \<lparr>is_processing = True, files_on_disk = {''chunk.wav''}, transcription_queue = [],
       status_queue = []\<rparr>)
   \<and> transcription_queue (process_chunk
      \<lparr>api = ApiReturned (Some ''hello''), unlink_ok = False, timestamp = ''12:00:00'',
       processing_time = ''0.5''\<rparr>
      (Item (Some ''chunk.wav''))
      \<lparr>is_processing = True, files_on_disk = {''chunk.wav''}, transcription_queue = [],
       status_queue = []\<rparr>) = [(''12:00:00'', ''0.5'', ''hello'')]"
  by (simp add: process_chunk_def unlink_chunk_def)

text \<open>When the call of the API raises, the handler does not reach the deletion.\<close>

lemma process_chunk_failed_keeps_file:
  "files_on_disk (process_chunk
      \<lparr>api = ApiRaised ''timeout'', unlink_ok = True, timestamp = ''12:00:00'',
       processing_time = ''0.5''\<rparr>
      (Item (Some ''chunk.wav''))
      \<lparr>is_processing = True, files_on_disk = {''chunk.wav''}, transcription_queue = [],
       status_queue = []\<rparr>) = {''chunk.wav''}"
  by (simp add: process_chunk_def)

lemma unlink_chunk_files:
  "files_on_disk (unlink_chunk env f s) =
     (if unlink_ok env then files_on_disk s - {f} else files_on_disk s)"
  by (simp add: unlink_chunk_def)

text \<open>
  C7 (as amended). For every chunk whose transcription call returns, with or without
  text, the worker tries to delete the chunk's file right afterwards; the deletion is
  best-effort: when \<^verbatim>\<open>os.unlink\<close> succeeds exactly this file is gone, and when it raises
  the files on disk are as before.
\<close>

theorem process_chunk_deletes_after_return:
  assumes "chunk_file \<noteq> []" and "chunk_file \<in> files_on_disk s"
    and "api env = ApiReturned tr"
  shows "(unlink_ok env \<longrightarrow>
            files_on_disk (process_chunk env (Item (Some chunk_file)) s)
              = files_on_disk s - {chunk_file})
         \<and> (\<not> unlink_ok env \<longrightarrow>
            files_on_disk (process_chunk env (Item (Some chunk_file)) s) = files_on_disk s)"
proof (cases tr)
  case None
  with assms show ?thesis
    by (simp add: process_chunk_def Let_def unlink_chunk_files)
next
  case (Some t)
  with assms show ?thesis
    by (cases "t = []") (simp_all add: process_chunk_def Let_def unlink_chunk_files)
qed

theorem process_chunk_deletes_after_return_witness:
  "files_on_disk (process_chunk
      \<lparr>api = ApiReturned (Some ''hello''), unlink_ok = True, timestamp = ''12:00:00'',
       processing_time = ''0.5''\<rparr>
      (Item (Some ''chunk.wav''))
      \<lparr>is_processing = True, files_on_disk = {''chunk.wav'', ''other.wav''},
       transcription_queue = [], status_queue = []\<rparr>) = {''other.wav''}"
  using process_chunk_deletes_after_return
          [of "''chunk.wav''"
              "\<lparr>is_processing = True, files_on_disk = {''chunk.wav'', ''other.wav''},
                transcription_queue = [], status_queue = []\<rparr>"
              "\<lparr>api = ApiReturned (Some ''hello''), unlink_ok = True,
                timestamp = ''12:00:00'', processing_time = ''0.5''\<rparr>"
              "Some ''hello''"]
  by auto

section \<open>Properties of the processing tick\<close>

lemma limit_buffer_size_shorter:
  "length (audio_buffer (limit_buffer_size st)) \<le> length (audio_buffer st)"
  by (simp add: limit_buffer_size_def Let_def)

lemma limit_buffer_size_other_fields:
  "engine_calls (limit_buffer_size st) = engine_calls st
   \<and> temp_dir (limit_buffer_size st) = temp_dir st
   \<and> printed (limit_buffer_size st) = printed st
   \<and> last_transcription (limit_buffer_size st) = last_transcription st
   \<and> transcription_history (limit_buffer_size st) = transcription_history st"
  by (simp add: limit_buffer_size_def Let_def)

text \<open>
  C8. On a tick with fewer than 5 frames buffered (before or after the limit is applied),
  nothing but the limit happens: no file is written, the engine is not called, nothing is
  printed, and the last transcription and the history are as before.
\<close>

theorem tick_skipped_below_threshold:
  assumes "length (audio_buffer st) < 5 \<or> length (audio_buffer (limit_buffer_size st)) < 5"
  shows "transcription_tick env st = limit_buffer_size st
         \<and> engine_calls (transcription_tick env st) = engine_calls st
         \<and> temp_dir (transcription_tick env st) = temp_dir st
         \<and> printed (transcription_tick env st) = printed st
         \<and> last_transcription (transcription_tick env st) = last_transcription st
         \<and> transcription_history (transcription_tick env st) = transcription_history st"
proof -
  have "length (audio_buffer (limit_buffer_size st)) < 5"
    using assms limit_buffer_size_shorter [of st] by linarith
  then have "transcription_tick env st = limit_buffer_size st"
    by (simp add: transcription_tick_def Let_def)
  then show ?thesis
    using limit_buffer_size_other_fields [of st] by simp
qed

theorem tick_skipped_below_threshold_witness:
  "transcription_tick
     \<lparr>t_audio = 0, t_resampled = 1, t_normalized = 2, ffmpeg_resample = Returned 0,
      ffmpeg_resample_plain = Returned 0, ffmpeg_loudnorm = Returned 0,
      engine = EngineResults [[Utterance (Some ''hello there'')]]\<rparr>
     (new_transcriber\<lparr>audio_buffer := [1 :: nat, 2, 3, 4]\<rparr>)
   = new_transcriber\<lparr>audio_buffer := [1 :: nat, 2, 3, 4]\<rparr>"
  using tick_skipped_below_threshold
          [of "new_transcriber\<lparr>audio_buffer := [1 :: nat, 2, 3, 4]\<rparr>"
              "\<lparr>t_audio = 0, t_resampled = 1, t_normalized = 2, ffmpeg_resample = Returned 0,
                ffmpeg_resample_plain = Returned 0, ffmpeg_loudnorm = Returned 0,
                engine = EngineResults [[Utterance (Some ''hello there'')]]\<rparr>"]
  by (simp add: limit_buffer_size_def max_chunks_def int_quotient_def new_transcriber_def
        TARGET_SAMPLE_RATE_def MAX_BUFFER_SECONDS_def CHUNK_def)

section \<open>Properties of stopping\<close>

text \<open>
  A stream exists only while recording: this holds after the constructor and is kept by
  every start and by every stop whose closing of the stream succeeds.
\<close>

lemma new_transcriber_no_stream:
  "stream (new_transcriber :: 'f transcriber) \<longrightarrow> is_recording (new_transcriber :: 'f transcriber)"
  by (simp add: new_transcriber_def)

lemma start_recording_no_stray_stream:
  "(stream st \<longrightarrow> is_recording st) \<Longrightarrow>
   stream (snd (start_recording env i st)) \<longrightarrow> is_recording (snd (start_recording env i st))"
  by (auto simp: start_recording_def start_attempt_def Let_def split: sum.splits prod.splits if_splits)

lemma stop_recording_no_stray_stream:
  "(stream st \<longrightarrow> is_recording st) \<Longrightarrow>
   stream (snd (stop_recording True st)) \<longrightarrow> is_recording (snd (stop_recording True st))"
  by (auto simp: stop_recording_def Let_def)





end
